theory Spec2Isabelle
  imports Complex_Main
begin

section \<open>Data model\<close>

text \<open>
  The module keeps two pieces of process-wide data: the configuration read from the
  environment when the module is loaded, and the dictionary \<open>_rate_limit\<close> from token to
  the list of the times of its admitted requests. The configuration is a record that every
  function takes as an argument; the dictionary is passed in and returned updated.

  Times are the values of \<open>time.time()\<close>. They are modelled as real numbers with exact
  subtraction and comparison; the rounding of Python's floats is not modelled. The clock is
  an argument \<open>now\<close> of every function that reads it.

  Strings are lists of 8-bit characters. For the \<open>Authorization\<close> header this is exact: the
  framework decodes header bytes as Latin-1, so each character of the Python string is one
  byte. For the texts of a request body the list is the UTF-8 encoding of the Python
  string, which preserves the operations the handlers use on them (concatenation,
  comparison with an ASCII literal and the test for emptiness) and from which the number
  of characters that a length bound counts can be read off.
\<close>

type_synonym token = string
type_synonym timestamp = real
type_synonym rate_limit = "token \<rightharpoonup> timestamp list"

datatype error =
    HTTPException (status_code: nat) (detail: string)
  | KeyError string
  | RequestValidationError "string list"

record config =
  OPENAI_API_KEY :: string
  MASTER_API_KEY :: string
  MODEL :: string
  MAX_TOKENS :: int

definition VALID_ACCESS_TOKENS :: "config \<Rightarrow> token set" where
  "VALID_ACCESS_TOKENS cfg = {MASTER_API_KEY cfg}"

definition RATE_LIMIT_WINDOW :: real where
  "RATE_LIMIT_WINDOW = 60"

definition RATE_LIMIT_MAX :: nat where
  "RATE_LIMIT_MAX = 20"

section \<open>Rate limiting\<close>

text \<open>
  \<open>hits_of\<close> is the list that \<open>_rate_limit.setdefault(token, [])\<close> returns: the recorded
  list, or the empty list for a token with no entry yet.
\<close>

definition hits_of :: "rate_limit \<Rightarrow> token \<Rightarrow> timestamp list" where
  "hits_of rl token = (case rl token of None \<Rightarrow> [] | Some hits \<Rightarrow> hits)"

text \<open>
  \<open>_check_rate_limit(token)\<close>, with the clock reading as the argument \<open>now\<close>. The list is
  pruned in place before the test, so the pruned list is stored on both paths; the raise is
  the \<open>Inl\<close> branch.
\<close>

definition check_rate_limit ::
    "rate_limit \<Rightarrow> token \<Rightarrow> timestamp \<Rightarrow> rate_limit \<times> (error + unit)" where
  "check_rate_limit rl token now =
     (let hits = filter (\<lambda>t. now - t < RATE_LIMIT_WINDOW) (hits_of rl token)
      in if length hits \<ge> RATE_LIMIT_MAX
         then (rl(token \<mapsto> hits),
               Inl (HTTPException 429
                 ''Rate limit exceeded. Please wait before making more requests.''))
         else (rl(token \<mapsto> hits @ [now]), Inr ()))"

section \<open>Authorization\<close>

text \<open>
  \<open>str.split()\<close> without arguments cuts a string at every run of whitespace and drops the
  empty pieces. For characters below 256 the whitespace characters of Python are
  U+0009 to U+000D, U+001C to U+0020, U+0085 and U+00A0.
\<close>

definition py_isspace :: "char \<Rightarrow> bool" where
  "py_isspace c =
     (let n = (of_char c :: nat)
      in (9 \<le> n \<and> n \<le> 13) \<or> (28 \<le> n \<and> n \<le> 32) \<or> n = 133 \<or> n = 160)"

fun split_ws :: "string \<Rightarrow> string \<Rightarrow> string list" where
  "split_ws cur [] = (if cur = [] then [] else [cur])"
| "split_ws cur (c # cs) =
     (if py_isspace c
      then (if cur = [] then split_ws [] cs else cur # split_ws [] cs)
      else split_ws (cur @ [c]) cs)"

definition py_split :: "string \<Rightarrow> string list" where
  "py_split s = split_ws [] s"

text \<open>
  \<open>str.lower()\<close> on characters below 256: the letters A to Z and the Latin-1 capitals
  U+00C0 to U+00DE (without the multiplication sign U+00D7) move up by 32.
\<close>

definition py_lower_char :: "char \<Rightarrow> char" where
  "py_lower_char c =
     (let n = (of_char c :: nat)
      in if (65 \<le> n \<and> n \<le> 90) \<or> (192 \<le> n \<and> n \<le> 222 \<and> n \<noteq> 215)
         then char_of (n + 32) else c)"

definition py_lower :: "string \<Rightarrow> string" where
  "py_lower s = map py_lower_char s"

text \<open>
  \<open>_authorize(authorization)\<close>. The header is \<open>None\<close> when the request has none; \<open>not
  authorization\<close> also holds for the empty string. The result is the new limiter state and
  either the raised exception or the returned token.
\<close>

definition authorize ::
    "config \<Rightarrow> rate_limit \<Rightarrow> string option \<Rightarrow> timestamp \<Rightarrow> rate_limit \<times> (error + token)" where
  "authorize cfg rl authorization now =
     (case authorization of
        None \<Rightarrow> (rl, Inl (HTTPException 401 ''Missing Authorization header''))
      | Some a \<Rightarrow>
          if a = [] then (rl, Inl (HTTPException 401 ''Missing Authorization header''))
          else
            let parts = py_split a
            in if length parts \<noteq> 2 \<or> py_lower (parts ! 0) \<noteq> ''bearer''
               then (rl, Inl (HTTPException 401
                       ''Invalid Authorization format. Use: Bearer <token>''))
               else
                 let token = parts ! 1
                 in if token \<notin> VALID_ACCESS_TOKENS cfg
                    then (rl, Inl (HTTPException 403 ''Invalid access token''))
                    else (case check_rate_limit rl token now of
                            (rl', Inl e) \<Rightarrow> (rl', Inl e)
                          | (rl', Inr _) \<Rightarrow> (rl', Inr token)))"

section \<open>Completion client\<close>

text \<open>
  The provider is outside the module. One call of \<open>client.chat.completions.create\<close> is a
  function from the request to either the exception it raises or the response object:
  \<open>RateLimitError\<close> is a subclass of \<open>APIError\<close>, and the third constructor stands for
  every other subclass of \<open>Exception\<close>; each carries the text of \<open>str(e)\<close>. Of the response
  the model keeps what the module reads: the content of each choice's message (which may be
  \<open>None\<close>), the usage object (which may be \<open>None\<close>) and the model name.
\<close>

record completion_request =
  req_model :: string
  req_messages :: "(string \<times> string) list"
  req_max_tokens :: int
  req_temperature :: real

record completion_usage =
  prompt_tokens :: int
  completion_tokens :: int
  total_tokens :: int

record chat_completion =
  resp_choices :: "string option list"
  resp_usage :: "completion_usage option"
  resp_model :: "string option"

datatype upstream_exc =
    RateLimitError string
  | APIError string
  | OtherException string

type_synonym upstream = "completion_request \<Rightarrow> upstream_exc + chat_completion"

record AIResponse =
  content :: string
  usage :: "(string \<times> int) list"
  model :: string

text \<open>
  \<open>x or default\<close> on an optional string: the default replaces both \<open>None\<close> and the empty
  string.
\<close>

definition py_or :: "string option \<Rightarrow> string \<Rightarrow> string" where
  "py_or x d = (case x of None \<Rightarrow> d | Some s \<Rightarrow> if s = [] then d else s)"

text \<open>
  \<open>_call_openai(system, user)\<close>. Reading \<open>resp.choices[0]\<close> of an empty list raises
  \<open>IndexError\<close> inside the \<open>try\<close> block, which the last handler turns into status 500.
\<close>

definition call_openai :: "config \<Rightarrow> upstream \<Rightarrow> string \<Rightarrow> string \<Rightarrow> error + AIResponse" where
  "call_openai cfg create system user =
     (case create \<lparr>req_model = MODEL cfg,
                   req_messages = [(''system'', system), (''user'', user)],
                   req_max_tokens = MAX_TOKENS cfg,
                   req_temperature = 7 / 10\<rparr> of
        Inl (RateLimitError m) \<Rightarrow>
          Inl (HTTPException 429 ''OpenAI rate limit reached. Please try again shortly.'')
      | Inl (APIError m) \<Rightarrow> Inl (HTTPException 502 (''OpenAI API error: '' @ m))
      | Inl (OtherException m) \<Rightarrow> Inl (HTTPException 500 (''Internal error: '' @ m))
      | Inr resp \<Rightarrow>
          (case resp_choices resp of
             [] \<Rightarrow> Inl (HTTPException 500 ''Internal error: list index out of range'')
           | c # _ \<Rightarrow>
               Inr \<lparr>content = py_or c [],
                    usage =
                      [(''prompt_tokens'',
                          case resp_usage resp of None \<Rightarrow> 0 | Some u \<Rightarrow> prompt_tokens u),
                       (''completion_tokens'',
                          case resp_usage resp of None \<Rightarrow> 0 | Some u \<Rightarrow> completion_tokens u),
                       (''total_tokens'',
                          case resp_usage resp of None \<Rightarrow> 0 | Some u \<Rightarrow> total_tokens u)],
                    model = py_or (resp_model resp) (MODEL cfg)\<rparr>))"

section \<open>Request handlers\<close>

text \<open>
  The request bodies as the endpoint functions receive them. \<open>truthy\<close> is the truth value of
  an optional string in a condition, and \<open>py_str\<close> is how an f-string renders it.
\<close>

record GenerateRequest =
  gen_type :: string
  gen_prompt :: string
  tone :: "string option"
  language :: "string option"

record RewriteRequest =
  rw_text :: string
  style :: "string option"

record TranslateRequest =
  tr_text :: string
  source_lang :: "string option"
  target_lang :: "string option"

definition truthy :: "string option \<Rightarrow> bool" where
  "truthy x = (case x of None \<Rightarrow> False | Some s \<Rightarrow> s \<noteq> [])"

definition py_str :: "string option \<Rightarrow> string" where
  "py_str x = (case x of None \<Rightarrow> ''None'' | Some s \<Rightarrow> s)"

text \<open>
  The number of characters of a Python string, read off its UTF-8 encoding: every byte
  that is not a continuation byte (\<open>0x80\<close> to \<open>0xBF\<close>) starts one character. This is what
  \<open>min_length\<close> and \<open>max_length\<close> of a field count.
\<close>

definition py_len :: "string \<Rightarrow> nat" where
  "py_len s = length (filter (\<lambda>c. \<not> (128 \<le> (of_char c :: nat) \<and> (of_char c :: nat) < 192)) s)"

text \<open>
  The declaration of \<open>RewriteRequest\<close> bounds its fields: \<open>text\<close> has from 2 to 8000
  characters, and \<open>style\<close>, when it is a string, has at most 50. The framework checks the
  body against the declaration before it calls the endpoint function, and answers a body
  that fails with the validation error (status 422) that names the failing fields; the
  gate has not run then. \<open>RewriteRequest_errors\<close> lists the failing fields and
  \<open>post_api_rewrite\<close> is the endpoint \<open>POST /api/rewrite\<close> as the framework serves it.
\<close>

definition RewriteRequest_errors :: "RewriteRequest \<Rightarrow> string list" where
  "RewriteRequest_errors body =
     (if 2 \<le> py_len (rw_text body) \<and> py_len (rw_text body) \<le> 8000 then [] else [''text'']) @
     (case style body of
        None \<Rightarrow> []
      | Some s \<Rightarrow> if py_len s \<le> 50 then [] else [''style''])"

definition SYSTEM_PROMPTS :: "(string \<times> string) list" where
  "SYSTEM_PROMPTS =
     [(''blog'',
        ''You are an expert blog writer and SEO specialist. '' @
        ''Write engaging, well-structured blog content with proper headings (using Markdown), '' @
        ''subheadings, bullet points, and a compelling introduction and conclusion. '' @
        ''Optimize for readability and SEO. Include a meta description suggestion at the end.''),
      (''product'',
        ''You are a world-class copywriter specializing in product descriptions. '' @
        ''Write compelling, benefit-driven product descriptions that convert. '' @
        ''Use power words, highlight key features and benefits, include a call-to-action. '' @
        ''Format with Markdown for readability.''),
      (''email'',
        ''You are an email marketing expert with high conversion rates. '' @
        ''Write professional, engaging emails with a clear subject line suggestion, '' @
        ''compelling body, and strong call-to-action. '' @
        ''Format with Markdown. Include subject line at the top.''),
      (''social'',
        ''You are a social media content strategist. '' @
        ''Create engaging social media posts optimized for engagement. '' @
        ''Include relevant hashtag suggestions, emoji usage where appropriate, '' @
        ''and format for maximum impact. Provide variations for different platforms '' @
        ''(Twitter/X, LinkedIn, Instagram) in Markdown format.'')]"

text \<open>
  \<open>generate_content(body, authorization)\<close>. The gate runs first and its exception ends the
  request; \<open>SYSTEM_PROMPTS[body.type]\<close> raises \<open>KeyError\<close> for a key that is not in the
  dictionary.
\<close>

definition generate_content ::
    "config \<Rightarrow> upstream \<Rightarrow> rate_limit \<Rightarrow> timestamp \<Rightarrow> GenerateRequest \<Rightarrow> string option
      \<Rightarrow> rate_limit \<times> (error + AIResponse)" where
  "generate_content cfg create rl now body authorization =
     (case authorize cfg rl authorization now of
        (rl', Inl e) \<Rightarrow> (rl', Inl e)
      | (rl', Inr _) \<Rightarrow>
          (rl',
           case map_of SYSTEM_PROMPTS (gen_type body) of
             None \<Rightarrow> Inl (KeyError (gen_type body))
           | Some base \<Rightarrow>
               let system1 =
                     (if truthy (tone body) \<and> tone body \<noteq> Some ''professional''
                      then base @ ''\<newline>\<newline>Use a '' @ py_str (tone body) @ '' tone throughout.''
                      else base);
                   system2 =
                     (if truthy (language body) \<and> language body \<noteq> Some ''en''
                      then system1 @ ''\<newline>\<newline>Write the content in '' @ py_str (language body) @ ''.''
                      else system1)
               in call_openai cfg create system2 (gen_prompt body)))"

definition style_instructions :: "(string \<times> string) list" where
  "style_instructions =
     [(''improved'', ''Improve the clarity, flow, and impact while keeping the original meaning.''),
      (''formal'', ''Rewrite in a formal, professional tone.''),
      (''casual'', ''Rewrite in a casual, conversational tone.''),
      (''concise'', ''Make it significantly more concise while keeping key points.''),
      (''expanded'', ''Expand with more detail, examples, and depth.'')]"

text \<open>
  \<open>rewrite_content(body, authorization)\<close>. \<open>dict.get(key, default)\<close> is the lookup with the
  default for a missing key; the default is the entry of \<open>''improved''\<close>, which the literal
  dictionary always has. The last line of the source text holds an escaped backslash followed by the
  letter n, so the prompt has these two characters and no line break there.
\<close>

definition rewrite_content ::
    "config \<Rightarrow> upstream \<Rightarrow> rate_limit \<Rightarrow> timestamp \<Rightarrow> RewriteRequest \<Rightarrow> string option
      \<Rightarrow> rate_limit \<times> (error + AIResponse)" where
  "rewrite_content cfg create rl now body authorization =
     (case authorize cfg rl authorization now of
        (rl', Inl e) \<Rightarrow> (rl', Inl e)
      | (rl', Inr _) \<Rightarrow>
          (rl',
           case map_of style_instructions ''improved'' of
             None \<Rightarrow> Inl (KeyError ''improved'')
           | Some dflt \<Rightarrow>
               let instruction =
                     (case map_of style_instructions (py_or (style body) ''improved'') of
                        None \<Rightarrow> dflt | Some i \<Rightarrow> i);
                   system =
                     ''You are an expert editor and writing coach. '' @
                     instruction @ '' '' @
                     ''Return the rewritten text in Markdown format. '' @
                     ''After the rewrite, add a brief '---'' @ [CHR 0x5C] @
                     ''n**Changes made:**' section listing key improvements.''
               in call_openai cfg create system
                    (''Please rewrite the following text:\<newline>\<newline>'' @ rw_text body)))"

definition post_api_rewrite ::
    "config \<Rightarrow> upstream \<Rightarrow> rate_limit \<Rightarrow> timestamp \<Rightarrow> RewriteRequest \<Rightarrow> string option
      \<Rightarrow> rate_limit \<times> (error + AIResponse)" where
  "post_api_rewrite cfg create rl now body authorization =
     (if RewriteRequest_errors body = []
      then rewrite_content cfg create rl now body authorization
      else (rl, Inl (RequestValidationError (RewriteRequest_errors body))))"

text \<open>
  \<open>translate_content(body, authorization)\<close>. The comparison \<open>body.source_lang != "auto"\<close>
  also holds for \<open>None\<close>, which the f-string then renders as \<open>None\<close>.
\<close>

definition translate_content ::
    "config \<Rightarrow> upstream \<Rightarrow> rate_limit \<Rightarrow> timestamp \<Rightarrow> TranslateRequest \<Rightarrow> string option
      \<Rightarrow> rate_limit \<times> (error + AIResponse)" where
  "translate_content cfg create rl now body authorization =
     (case authorize cfg rl authorization now of
        (rl', Inl e) \<Rightarrow> (rl', Inl e)
      | (rl', Inr _) \<Rightarrow>
          (rl',
           let system =
                 ''You are a professional translator fluent in all major languages. '' @
                 ''Provide accurate, natural-sounding translations that preserve the original tone and meaning. '' @
                 ''If the source language is Chinese, translate to English. '' @
                 ''If the source language is English, translate to Chinese. '' @
                 ''For other language pairs, follow the user's instructions. '' @
                 ''Format the output in Markdown. After the translation, add a brief note about any '' @
                 ''cultural or contextual adaptations you made.'';
               user_msg =
                 (if source_lang body \<noteq> Some ''auto''
                  then ''Translate from '' @ py_str (source_lang body) @ '' to '' @
                       py_str (target_lang body) @ '':\<newline>\<newline>'' @ tr_text body
                  else tr_text body)
           in call_openai cfg create system user_msg))"

section \<open>Configuration defaults and runs\<close>

text \<open>
  The values the configuration takes when no environment variable is set: the second
  arguments of the calls of \<open>os.getenv\<close>.
\<close>

definition default_config :: config where
  "default_config =
     \<lparr>OPENAI_API_KEY = [], MASTER_API_KEY = ''wf_live_master_key_change_me'',
      MODEL = ''gpt-4o-mini'', MAX_TOKENS = 2048\<rparr>"

text \<open>
  A process serves one request after the other on the same dictionary. \<open>run_checks\<close> is a
  sequence of calls of \<open>_check_rate_limit\<close>, each with its token and its clock reading;
  \<open>run_gate\<close> is a sequence of calls of \<open>_authorize\<close>, each with its header and the clock
  reading at that moment. Both return the final dictionary and the outcome of every call.
\<close>

fun run_checks ::
    "rate_limit \<Rightarrow> (token \<times> timestamp) list \<Rightarrow> rate_limit \<times> (error + unit) list" where
  "run_checks rl [] = (rl, [])"
| "run_checks rl ((token, now) # calls) =
     (case check_rate_limit rl token now of
        (rl1, r) \<Rightarrow> (case run_checks rl1 calls of (rl2, rs) \<Rightarrow> (rl2, r # rs)))"

fun run_gate ::
    "config \<Rightarrow> rate_limit \<Rightarrow> (string option \<times> timestamp) list
      \<Rightarrow> rate_limit \<times> (error + token) list" where
  "run_gate cfg rl [] = (rl, [])"
| "run_gate cfg rl ((authorization, now) # reqs) =
     (case authorize cfg rl authorization now of
        (rl1, r) \<Rightarrow> (case run_gate cfg rl1 reqs of (rl2, rs) \<Rightarrow> (rl2, r # rs)))"

text \<open>
  The times of the requests of a run that the gate admitted for the token \<open>tok\<close>, in the
  order of the run.
\<close>

definition admitted ::
    "token \<Rightarrow> (string option \<times> timestamp) list \<Rightarrow> (error + token) list \<Rightarrow> timestamp list" where
  "admitted tok reqs rs = map (\<lambda>(req, r). snd req) (filter (\<lambda>(req, r). r = Inr tok) (zip reqs rs))"

text \<open>
  The invariant of a run whose clock never goes back: seen through the window of any time
  that is not before the requests made so far, the list stored for a token holds the same
  times as the record of the token's admitted requests.
\<close>

definition tracks :: "rate_limit \<Rightarrow> (string option \<times> timestamp) list \<Rightarrow> (error + token) list \<Rightarrow> bool" where
  "tracks rl reqs rs \<longleftrightarrow>
     (\<forall>tok now. (\<forall>t\<in>set (map snd reqs). t \<le> now) \<longrightarrow>
        filter (\<lambda>t. now - t < 60) (hits_of rl tok) =
        filter (\<lambda>t. now - t < 60) (admitted tok reqs rs))"

section \<open>The rate limiter\<close>

text \<open>
  Claim C1. For every token and every time \<open>now\<close>, the check keeps exactly the recorded times
  \<open>t\<close> for which \<open>now - t \<ge> 60\<close> does not hold, in their order. If 20 or more remain, it
  fails with status 429 and stores the pruned list with nothing appended; otherwise it
  stores the pruned list with \<open>now\<close> appended and succeeds. A time exactly 60 before \<open>now\<close>
  is never among the kept ones.
\<close>

theorem check_rate_limit_prune_then_admit:
  "(let kept = filter (\<lambda>t. \<not> (now - t \<ge> 60)) (hits_of rl token)
    in (20 \<le> length kept \<longrightarrow>
          check_rate_limit rl token now =
            (rl(token \<mapsto> kept),
             Inl (HTTPException 429
               ''Rate limit exceeded. Please wait before making more requests.'')))
     \<and> (length kept < 20 \<longrightarrow>
          check_rate_limit rl token now = (rl(token \<mapsto> kept @ [now]), Inr ()))
     \<and> now - 60 \<notin> set kept)"
  by (simp add: check_rate_limit_def RATE_LIMIT_WINDOW_def RATE_LIMIT_MAX_def Let_def not_le)

theorem check_rate_limit_prune_then_admit_witness:
  "check_rate_limit [''k'' \<mapsto> [0, 40, 50]] ''k'' 100 = ([''k'' \<mapsto> [50, 100]], Inr ())
   \<and> check_rate_limit [''k'' \<mapsto> 0 # replicate 20 50] ''k'' 100 =
       ([''k'' \<mapsto> replicate 20 50],
        Inl (HTTPException 429
          ''Rate limit exceeded. Please wait before making more requests.''))"
  using check_rate_limit_prune_then_admit [of 100 "[''k'' \<mapsto> [0, 40, 50]]" "''k''"]
        check_rate_limit_prune_then_admit [of 100 "[''k'' \<mapsto> 0 # replicate 20 50]" "''k''"]
  by (simp add: hits_of_def Let_def)

section \<open>The authorization gate\<close>

lemma split_ws_word:
  "\<forall>c\<in>set w. \<not> py_isspace c \<Longrightarrow> split_ws cur w = (if cur @ w = [] then [] else [cur @ w])"
  by (induction w arbitrary: cur) auto

lemma py_split_Bearer:
  assumes "t \<noteq> []" and "\<forall>c\<in>set t. \<not> py_isspace c"
  shows "py_split (''Bearer '' @ t) = [''Bearer'', t]"
  using assms by (simp add: py_split_def py_isspace_def split_ws_word)

lemma py_lower_Bearer: "py_lower ''Bearer'' = ''bearer''"
  by code_simp

lemma authorize_parsed:
  assumes "py_split a = [scheme, tok]" and "py_lower scheme = ''bearer''"
  shows "authorize cfg rl (Some a) now =
           (if tok \<in> VALID_ACCESS_TOKENS cfg
            then (fst (check_rate_limit rl tok now),
                  case snd (check_rate_limit rl tok now) of Inl e \<Rightarrow> Inl e | Inr _ \<Rightarrow> Inr tok)
            else (rl, Inl (HTTPException 403 ''Invalid access token'')))"
proof -
  have "a \<noteq> []" using assms(1) by (auto simp: py_split_def)
  then show ?thesis using assms
    by (simp add: authorize_def Let_def split: prod.splits sum.splits)
qed

text \<open>
  Claim C2. The gate tests in this order. No header, or an empty one, gives status 401. A
  header that does not split at whitespace into exactly two parts of which the first is
  \<open>bearer\<close> in any letter case gives status 401. A header that does, with a token outside
  the registry, gives status 403 and leaves the limiter's dictionary as it was, whatever
  that dictionary holds. Only for a registered token is the outcome that of the rate
  limiter's check on that token. Every header \<open>Bearer <token>\<close> with a non-empty token free
  of whitespace splits into the two parts \<open>Bearer\<close> and the token.
\<close>

theorem authorize_order:
  "authorize cfg rl None now = (rl, Inl (HTTPException 401 ''Missing Authorization header''))
   \<and> authorize cfg rl (Some []) now =
       (rl, Inl (HTTPException 401 ''Missing Authorization header''))
   \<and> (a \<noteq> [] \<and> (length (py_split a) \<noteq> 2 \<or> py_lower (py_split a ! 0) \<noteq> ''bearer'') \<longrightarrow>
        authorize cfg rl (Some a) now =
          (rl, Inl (HTTPException 401 ''Invalid Authorization format. Use: Bearer <token>'')))
   \<and> (py_split b = [scheme, tok] \<and> py_lower scheme = ''bearer'' \<longrightarrow>
        authorize cfg rl (Some b) now =
          (if tok \<in> VALID_ACCESS_TOKENS cfg
           then (fst (check_rate_limit rl tok now),
                 case snd (check_rate_limit rl tok now) of Inl e \<Rightarrow> Inl e | Inr _ \<Rightarrow> Inr tok)
           else (rl, Inl (HTTPException 403 ''Invalid access token''))))
   \<and> (t \<noteq> [] \<and> (\<forall>c\<in>set t. \<not> py_isspace c) \<longrightarrow>
        py_split (''Bearer '' @ t) = [''Bearer'', t] \<and> py_lower ''Bearer'' = ''bearer'')"
proof (intro conjI impI)
  show "authorize cfg rl None now = (rl, Inl (HTTPException 401 ''Missing Authorization header''))"
    by (simp add: authorize_def)
  show "authorize cfg rl (Some []) now =
          (rl, Inl (HTTPException 401 ''Missing Authorization header''))"
    by (simp add: authorize_def)
next
  assume "a \<noteq> [] \<and> (length (py_split a) \<noteq> 2 \<or> py_lower (py_split a ! 0) \<noteq> ''bearer'')"
  then show "authorize cfg rl (Some a) now =
          (rl, Inl (HTTPException 401 ''Invalid Authorization format. Use: Bearer <token>''))"
    by (auto simp: authorize_def Let_def)
next
  assume "py_split b = [scheme, tok] \<and> py_lower scheme = ''bearer''"
  then show "authorize cfg rl (Some b) now =
          (if tok \<in> VALID_ACCESS_TOKENS cfg
           then (fst (check_rate_limit rl tok now),
                 case snd (check_rate_limit rl tok now) of Inl e \<Rightarrow> Inl e | Inr _ \<Rightarrow> Inr tok)
           else (rl, Inl (HTTPException 403 ''Invalid access token'')))"
    by (simp add: authorize_parsed)
next
  assume "t \<noteq> [] \<and> (\<forall>c\<in>set t. \<not> py_isspace c)"
  then show "py_split (''Bearer '' @ t) = [''Bearer'', t]"
    by (intro py_split_Bearer) simp_all
  show "py_lower ''Bearer'' = ''bearer''"
    by (rule py_lower_Bearer)
qed

theorem authorize_order_witness:
  "authorize default_config [''zz'' \<mapsto> replicate 20 50] None 100 =
     ([''zz'' \<mapsto> replicate 20 50], Inl (HTTPException 401 ''Missing Authorization header''))
   \<and> authorize default_config [''zz'' \<mapsto> replicate 20 50] (Some ''Token abc'') 100 =
     ([''zz'' \<mapsto> replicate 20 50],
      Inl (HTTPException 401 ''Invalid Authorization format. Use: Bearer <token>''))
   \<and> authorize default_config [''zz'' \<mapsto> replicate 20 50] (Some ''Bearer zz'') 100 =
     ([''zz'' \<mapsto> replicate 20 50], Inl (HTTPException 403 ''Invalid access token''))
   \<and> py_split ''Bearer zz'' = [''Bearer'', ''zz'']"
proof -
  have 1: "py_split ''Token abc'' = [''Token'', ''abc'']" by code_simp
  have 2: "py_lower ''Token'' \<noteq> ''bearer''" by code_simp
  have 3: "\<forall>c\<in>set ''zz''. \<not> py_isspace c" by code_simp
  have 4: "py_split ''Bearer zz'' = [''Bearer'', ''zz''] \<and> py_lower ''Bearer'' = ''bearer''"
    using authorize_order [of default_config "[''zz'' \<mapsto> replicate 20 50]" 100
        "''Token abc''" "''Bearer zz''" "''Bearer''" "''zz''" "''zz''"] 3
    by simp
  have 5: "''zz'' \<notin> VALID_ACCESS_TOKENS default_config"
    by (simp add: VALID_ACCESS_TOKENS_def default_config_def)
  show ?thesis
    using authorize_order [of default_config "[''zz'' \<mapsto> replicate 20 50]" 100
        "''Token abc''" "''Bearer zz''" "''Bearer''" "''zz''" "''zz''"] 1 2 4 5
    by simp
qed

section \<open>Frame of the gate\<close>

lemma check_rate_limit_other:
  "tok' \<noteq> token \<Longrightarrow> fst (check_rate_limit rl token now) tok' = rl tok'"
  by (simp add: check_rate_limit_def Let_def)

lemma authorize_outcomes:
  assumes "authorize cfg rl authorization now = (rl', r)"
  shows "(rl' = rl \<and> (\<exists>d. r = Inl (HTTPException 401 d) \<or> r = Inl (HTTPException 403 d)))
       \<or> (\<exists>a. authorization = Some a \<and> py_split a ! 1 \<in> VALID_ACCESS_TOKENS cfg
              \<and> rl' = fst (check_rate_limit rl (py_split a ! 1) now)
              \<and> r = (case snd (check_rate_limit rl (py_split a ! 1) now) of
                        Inl e \<Rightarrow> Inl e | Inr _ \<Rightarrow> Inr (py_split a ! 1)))"
  using assms
  by (auto simp: authorize_def Let_def split: option.splits if_splits prod.splits sum.splits)

text \<open>
  Claim C10. When the gate fails with status 401 or 403 the limiter's dictionary is the one
  it was given. When it fails with status 429 the dictionary differs only at the presented
  token, the second part of the header, whose list is now the old list pruned to the
  window, with nothing appended. Whatever the outcome, the entry of every token other than
  the presented one is as before, and a check of the limiter changes no entry but that of
  its own token.
\<close>

theorem gate_failure_frame:
  assumes "authorize cfg rl authorization now = (rl', r)"
  shows "(r = Inl (HTTPException 401 d) \<or> r = Inl (HTTPException 403 d) \<longrightarrow> rl' = rl)
       \<and> (r = Inl (HTTPException 429 d) \<longrightarrow>
            (\<exists>a. authorization = Some a
               \<and> rl' = rl(py_split a ! 1 \<mapsto>
                          filter (\<lambda>t. now - t < 60) (hits_of rl (py_split a ! 1)))))
       \<and> ((\<forall>a. authorization = Some a \<longrightarrow> tok' \<noteq> py_split a ! 1) \<longrightarrow> rl' tok' = rl tok')
       \<and> (tok' \<noteq> token \<longrightarrow> fst (check_rate_limit rl token now) tok' = rl tok')"
proof (intro conjI impI)
  assume "r = Inl (HTTPException 401 d) \<or> r = Inl (HTTPException 403 d)"
  with authorize_outcomes [OF assms] show "rl' = rl"
    by (auto simp: check_rate_limit_def Let_def split: if_splits)
next
  assume "r = Inl (HTTPException 429 d)"
  with authorize_outcomes [OF assms]
  show "\<exists>a. authorization = Some a
          \<and> rl' = rl(py_split a ! 1 \<mapsto> filter (\<lambda>t. now - t < 60) (hits_of rl (py_split a ! 1)))"
    by (auto simp: check_rate_limit_def Let_def RATE_LIMIT_WINDOW_def split: if_splits)
next
  assume "\<forall>a. authorization = Some a \<longrightarrow> tok' \<noteq> py_split a ! 1"
  with authorize_outcomes [OF assms] show "rl' tok' = rl tok'"
    by (auto simp: check_rate_limit_other)
next
  assume "tok' \<noteq> token"
  then show "fst (check_rate_limit rl token now) tok' = rl tok'"
    by (rule check_rate_limit_other)
qed

lemma key_split:
  "py_split ''Bearer wf_live_master_key_change_me'' = [''Bearer'', ''wf_live_master_key_change_me'']"
  by code_simp

lemma key_valid: "''wf_live_master_key_change_me'' \<in> VALID_ACCESS_TOKENS default_config"
  by (simp add: VALID_ACCESS_TOKENS_def default_config_def)

theorem gate_failure_frame_witness:
  "authorize default_config
     [''other'' \<mapsto> [99], ''wf_live_master_key_change_me'' \<mapsto> 0 # replicate 20 50]
     (Some ''Bearer wf_live_master_key_change_me'') 100 =
   ([''other'' \<mapsto> [99], ''wf_live_master_key_change_me'' \<mapsto> replicate 20 50],
    Inl (HTTPException 429 ''Rate limit exceeded. Please wait before making more requests.''))
   \<and> [''other'' \<mapsto> [99], ''wf_live_master_key_change_me'' \<mapsto> replicate 20 50] ''other'' =
       [''other'' \<mapsto> [99], ''wf_live_master_key_change_me'' \<mapsto> 0 # replicate 20 50] ''other''"
proof -
  have run: "authorize default_config
     [''other'' \<mapsto> [99], ''wf_live_master_key_change_me'' \<mapsto> 0 # replicate 20 50]
     (Some ''Bearer wf_live_master_key_change_me'') 100 =
   ([''other'' \<mapsto> [99], ''wf_live_master_key_change_me'' \<mapsto> replicate 20 50],
    Inl (HTTPException 429 ''Rate limit exceeded. Please wait before making more requests.''))"
    by (simp add: authorize_parsed [OF key_split py_lower_Bearer] key_valid check_rate_limit_def
        hits_of_def RATE_LIMIT_WINDOW_def RATE_LIMIT_MAX_def Let_def)
  have other: "\<forall>a. Some ''Bearer wf_live_master_key_change_me'' = Some a \<longrightarrow> ''other'' \<noteq> py_split a ! 1"
    by (simp add: key_split)
  show ?thesis
    using gate_failure_frame [OF run,
        of "''Rate limit exceeded. Please wait before making more requests.''" "''other''"] run other
    by simp
qed

section \<open>Hits recorded at the gate\<close>

lemma generate_content_state:
  "fst (generate_content cfg create rl now body authorization) = fst (authorize cfg rl authorization now)"
  by (simp add: generate_content_def split: prod.splits sum.splits)

lemma rewrite_content_state:
  "fst (rewrite_content cfg create rl now body authorization) = fst (authorize cfg rl authorization now)"
  by (simp add: rewrite_content_def split: prod.splits sum.splits)

lemma translate_content_state:
  "fst (translate_content cfg create rl now body authorization) = fst (authorize cfg rl authorization now)"
  by (simp add: translate_content_def split: prod.splits sum.splits)

text \<open>
  Claim C4, as stated, fails. With the default configuration the master key is in the
  registry, so the header below passes the membership test; the key has 20 recorded hits at
  time 50 and the request comes at time 100. The gate answers 429 and the key's list is
  the same as before: no hit is recorded.
\<close>

theorem gate_hit_not_recorded_over_quota:
  "''wf_live_master_key_change_me'' \<in> VALID_ACCESS_TOKENS default_config
   \<and> py_split ''Bearer wf_live_master_key_change_me'' = [''Bearer'', ''wf_live_master_key_change_me'']
   \<and> authorize default_config [''wf_live_master_key_change_me'' \<mapsto> replicate 20 50]
       (Some ''Bearer wf_live_master_key_change_me'') 100 =
     ([''wf_live_master_key_change_me'' \<mapsto> replicate 20 50],
      Inl (HTTPException 429 ''Rate limit exceeded. Please wait before making more requests.''))"
  by (simp add: authorize_parsed [OF key_split py_lower_Bearer] key_valid key_split
      check_rate_limit_def hits_of_def RATE_LIMIT_WINDOW_def RATE_LIMIT_MAX_def Let_def)

lemma handler_gate_failure:
  assumes "snd (authorize cfg rl authorization now) = Inl e"
  shows "snd (generate_content cfg create rl now gbody authorization) = Inl e"
    and "snd (rewrite_content cfg create rl now rbody authorization) = Inl e"
    and "snd (translate_content cfg create rl now tbody authorization) = Inl e"
  using assms
  by (auto simp: generate_content_def rewrite_content_def translate_content_def
      split: prod.splits sum.splits)

text \<open>
  Claim C4, amended. For a request whose token passes the membership test, the gate stores
  the token's list pruned to the window. When fewer than 20 entries remain after pruning it
  appends the time of the request, recording one hit, and returns the token; when 20 or
  more remain it records nothing and the request fails with status 429, in the gate and so
  in each of the three handlers. The dictionary a handler leaves behind is the one the
  gate produced, whatever the provider call returns or raises: the hit is consumed at the
  gate, before the business logic.
\<close>

theorem gate_records_hit_when_admitted:
  assumes "py_split a = [scheme, tok]" and "py_lower scheme = ''bearer''"
      and "tok \<in> VALID_ACCESS_TOKENS cfg"
  shows "authorize cfg rl (Some a) now =
           (let kept = filter (\<lambda>t. now - t < 60) (hits_of rl tok)
            in if length kept < 20
               then (rl(tok \<mapsto> kept @ [now]), Inr tok)
               else (rl(tok \<mapsto> kept),
                     Inl (HTTPException 429
                       ''Rate limit exceeded. Please wait before making more requests.'')))
       \<and> fst (generate_content cfg create rl now gbody (Some a)) = fst (authorize cfg rl (Some a) now)
       \<and> fst (rewrite_content cfg create rl now rbody (Some a)) = fst (authorize cfg rl (Some a) now)
       \<and> fst (translate_content cfg create rl now tbody (Some a)) = fst (authorize cfg rl (Some a) now)
       \<and> (20 \<le> length (filter (\<lambda>t. now - t < 60) (hits_of rl tok)) \<longrightarrow>
            snd (generate_content cfg create rl now gbody (Some a)) =
              Inl (HTTPException 429
                ''Rate limit exceeded. Please wait before making more requests.'')
          \<and> snd (rewrite_content cfg create rl now rbody (Some a)) =
              Inl (HTTPException 429
                ''Rate limit exceeded. Please wait before making more requests.'')
          \<and> snd (translate_content cfg create rl now tbody (Some a)) =
              Inl (HTTPException 429
                ''Rate limit exceeded. Please wait before making more requests.''))"
proof -
  let ?kept = "filter (\<lambda>t. now - t < 60) (hits_of rl tok)"
  let ?limited = "Inl (HTTPException 429
      ''Rate limit exceeded. Please wait before making more requests.'')"
  have gate: "authorize cfg rl (Some a) now =
      (if length ?kept < 20 then (rl(tok \<mapsto> ?kept @ [now]), Inr tok)
       else (rl(tok \<mapsto> ?kept), ?limited))"
    using assms
    by (simp add: authorize_parsed check_rate_limit_def RATE_LIMIT_WINDOW_def
        RATE_LIMIT_MAX_def Let_def)
  have over: "snd (authorize cfg rl (Some a) now) = ?limited" if "20 \<le> length ?kept"
    using that gate by simp
  show ?thesis
    using gate handler_gate_failure [OF over]
    by (simp add: generate_content_state rewrite_content_state translate_content_state Let_def)
qed

theorem gate_records_hit_when_admitted_witness:
  "generate_content default_config (\<lambda>req. Inl (APIError ''down''))
     [''wf_live_master_key_change_me'' \<mapsto> [0, 50]] 100
     \<lparr>gen_type = ''blog'', gen_prompt = ''coffee shop opening'', tone = Some ''professional'',
      language = Some ''en''\<rparr>
     (Some ''Bearer wf_live_master_key_change_me'') =
   ([''wf_live_master_key_change_me'' \<mapsto> [50, 100]],
    Inl (HTTPException 502 ''OpenAI API error: down''))
   \<and> generate_content default_config (\<lambda>req. Inl (APIError ''down''))
     [''wf_live_master_key_change_me'' \<mapsto> 0 # replicate 20 50] 100
     \<lparr>gen_type = ''blog'', gen_prompt = ''coffee shop opening'', tone = Some ''professional'',
      language = Some ''en''\<rparr>
     (Some ''Bearer wf_live_master_key_change_me'') =
   ([''wf_live_master_key_change_me'' \<mapsto> replicate 20 50],
    Inl (HTTPException 429 ''Rate limit exceeded. Please wait before making more requests.''))"
proof -
  let ?body = "\<lparr>gen_type = ''blog'', gen_prompt = ''coffee shop opening'',
                tone = Some ''professional'', language = Some ''en''\<rparr>"
  have res: "snd (generate_content default_config (\<lambda>req. Inl (APIError ''down''))
     [''wf_live_master_key_change_me'' \<mapsto> [0, 50]] 100 ?body
     (Some ''Bearer wf_live_master_key_change_me'')) =
     Inl (HTTPException 502 ''OpenAI API error: down'')"
    by (simp add: generate_content_def authorize_parsed [OF key_split py_lower_Bearer] key_valid
        check_rate_limit_def hits_of_def RATE_LIMIT_WINDOW_def RATE_LIMIT_MAX_def Let_def
        SYSTEM_PROMPTS_def truthy_def call_openai_def)
  have admitted: "generate_content default_config (\<lambda>req. Inl (APIError ''down''))
     [''wf_live_master_key_change_me'' \<mapsto> [0, 50]] 100 ?body
     (Some ''Bearer wf_live_master_key_change_me'') =
   ([''wf_live_master_key_change_me'' \<mapsto> [50, 100]],
    Inl (HTTPException 502 ''OpenAI API error: down''))"
    using gate_records_hit_when_admitted [OF key_split py_lower_Bearer key_valid,
        of "[''wf_live_master_key_change_me'' \<mapsto> [0, 50]]" 100
           "\<lambda>req. Inl (APIError ''down'')" ?body] res
    by (simp add: prod_eq_iff hits_of_def Let_def)
  have refused: "generate_content default_config (\<lambda>req. Inl (APIError ''down''))
     [''wf_live_master_key_change_me'' \<mapsto> 0 # replicate 20 50] 100 ?body
     (Some ''Bearer wf_live_master_key_change_me'') =
   ([''wf_live_master_key_change_me'' \<mapsto> replicate 20 50],
    Inl (HTTPException 429 ''Rate limit exceeded. Please wait before making more requests.''))"
    using gate_records_hit_when_admitted [OF key_split py_lower_Bearer key_valid,
        of "[''wf_live_master_key_change_me'' \<mapsto> 0 # replicate 20 50]" 100
           "\<lambda>req. Inl (APIError ''down'')" ?body]
    by (simp add: prod_eq_iff hits_of_def Let_def)
  show ?thesis
    using admitted refused by (rule conjI)
qed

lemma run_checks_all_admitted:
  "length (hits_of rl token) + length ts \<le> 20 \<Longrightarrow>
     snd (run_checks rl (map (Pair token) ts)) = replicate (length ts) (Inr ())"
proof (induction ts arbitrary: rl)
  case Nil
  then show ?case by simp
next
  case (Cons t ts)
  let ?kept = "filter (\<lambda>u. t - u < RATE_LIMIT_WINDOW) (hits_of rl token)"
  have le: "length ?kept \<le> length (hits_of rl token)"
    by simp
  have room: "length (hits_of rl token) + Suc (length ts) \<le> 20"
    using Cons.prems by simp
  have short: "length ?kept < 20"
    using le room by linarith
  then have step: "check_rate_limit rl token t = (rl(token \<mapsto> ?kept @ [t]), Inr ())"
    by (simp add: check_rate_limit_def RATE_LIMIT_MAX_def Let_def)
  have "length (?kept @ [t]) = Suc (length ?kept)"
    by simp
  with le room have "length (?kept @ [t]) + length ts \<le> 20"
    by linarith
  then have "length (hits_of (rl(token \<mapsto> ?kept @ [t])) token) + length ts \<le> 20"
    by (simp add: hits_of_def)
  then have "snd (run_checks (rl(token \<mapsto> ?kept @ [t])) (map (Pair token) ts)) =
      replicate (length ts) (Inr ())"
    by (rule Cons.IH)
  then show ?case
    by (auto simp: step split: prod.splits)
qed

lemma run_checks_append:
  "run_checks rl (xs @ ys) =
     (case run_checks rl xs of
        (rl1, rs1) \<Rightarrow> (case run_checks rl1 ys of (rl2, rs2) \<Rightarrow> (rl2, rs1 @ rs2)))"
  by (induction xs arbitrary: rl) (auto split: prod.splits)

lemma run_checks_no_prune:
  assumes "\<forall>s\<in>set ts. \<forall>t\<in>set (hits_of rl token @ ts). s - t < 60"
      and "length (hits_of rl token) + length ts \<le> 20"
  shows "hits_of (fst (run_checks rl (map (Pair token) ts))) token = hits_of rl token @ ts"
  using assms
proof (induction ts arbitrary: rl)
  case Nil
  then show ?case by simp
next
  case (Cons t ts)
  have keep: "filter (\<lambda>u. t - u < RATE_LIMIT_WINDOW) (hits_of rl token) = hits_of rl token"
    using Cons.prems(1) by (auto simp: RATE_LIMIT_WINDOW_def filter_id_conv)
  have short: "length (hits_of rl token) < 20"
    using Cons.prems(2) by simp
  let ?rl1 = "rl(token \<mapsto> hits_of rl token @ [t])"
  have step: "check_rate_limit rl token t = (?rl1, Inr ())"
    using short by (simp add: check_rate_limit_def keep RATE_LIMIT_MAX_def Let_def)
  have hits1: "hits_of ?rl1 token = hits_of rl token @ [t]"
    by (simp add: hits_of_def)
  have "\<forall>s\<in>set ts. \<forall>u\<in>set (hits_of ?rl1 token @ ts). s - u < 60"
    using Cons.prems(1) by (auto simp: hits1)
  moreover have "length (hits_of ?rl1 token) + length ts \<le> 20"
    using Cons.prems(2) by (simp add: hits1)
  ultimately have "hits_of (fst (run_checks ?rl1 (map (Pair token) ts))) token =
      hits_of ?rl1 token @ ts"
    by (rule Cons.IH)
  then show ?case
    by (auto simp: step hits1 split: prod.splits)
qed

text \<open>
  Claim C5. If every recorded hit of a token is at least 60 before \<open>now\<close>, the check at
  \<open>now\<close> succeeds and leaves \<open>now\<close> as the token's only entry, and that check together with
  any 19 further checks of the token, 20 in all, are all admitted. The quota regained is
  20 and no more: when those 20 checks and a 21st at time \<open>u\<close> lie so close that none of the
  20 has left the window of a later one, the 21st is refused with status 429.
\<close>

theorem quota_restored_after_inactivity:
  assumes "\<forall>t\<in>set (hits_of rl token). now - t \<ge> 60" and "length ts < 20"
  shows "check_rate_limit rl token now = (rl(token \<mapsto> [now]), Inr ())
       \<and> snd (run_checks rl (map (Pair token) (now # ts))) = replicate (Suc (length ts)) (Inr ())
       \<and> (length ts = 19 \<and> (\<forall>s\<in>set (ts @ [u]). \<forall>t\<in>set (now # ts). s - t < 60) \<longrightarrow>
            snd (run_checks rl (map (Pair token) (now # ts @ [u]))) =
              replicate 20 (Inr ()) @
              [Inl (HTTPException 429
                 ''Rate limit exceeded. Please wait before making more requests.'')])"
proof -
  let ?rl1 = "rl(token \<mapsto> [now])"
  have "filter (\<lambda>t. now - t < RATE_LIMIT_WINDOW) (hits_of rl token) = []"
    using assms(1) by (auto simp: RATE_LIMIT_WINDOW_def filter_empty_conv)
  then have step: "check_rate_limit rl token now = (?rl1, Inr ())"
    by (simp add: check_rate_limit_def RATE_LIMIT_MAX_def Let_def)
  have hits1: "hits_of ?rl1 token = [now]"
    by (simp add: hits_of_def)
  have room: "length (hits_of ?rl1 token) + length ts \<le> 20"
    using assms(2) by (simp add: hits1)
  have all: "snd (run_checks ?rl1 (map (Pair token) ts)) = replicate (length ts) (Inr ())"
    using room by (rule run_checks_all_admitted)
  have first20: "snd (run_checks rl (map (Pair token) (now # ts))) =
      replicate (Suc (length ts)) (Inr ())"
    using all step by (auto split: prod.splits)
  have last: "snd (run_checks rl (map (Pair token) (now # ts @ [u]))) =
      replicate 20 (Inr ()) @
      [Inl (HTTPException 429
         ''Rate limit exceeded. Please wait before making more requests.'')]"
    if len: "length ts = 19" and near: "\<forall>s\<in>set (ts @ [u]). \<forall>t\<in>set (now # ts). s - t < 60"
  proof -
    obtain rl2 rs2 where run2: "run_checks ?rl1 (map (Pair token) ts) = (rl2, rs2)"
      by (cases "run_checks ?rl1 (map (Pair token) ts)")
    have rs2: "rs2 = replicate 19 (Inr ())"
      using all run2 len by simp
    have "\<forall>s\<in>set ts. \<forall>t\<in>set (hits_of ?rl1 token @ ts). s - t < 60"
      using near by (auto simp: hits1)
    then have "hits_of (fst (run_checks ?rl1 (map (Pair token) ts))) token =
        hits_of ?rl1 token @ ts"
      using room by (rule run_checks_no_prune)
    then have hits2: "hits_of rl2 token = now # ts"
      using run2 by (simp add: hits1)
    have "filter (\<lambda>t. u - t < RATE_LIMIT_WINDOW) (hits_of rl2 token) = now # ts"
      using near by (auto simp: hits2 RATE_LIMIT_WINDOW_def filter_id_conv)
    then have "snd (check_rate_limit rl2 token u) =
        Inl (HTTPException 429
          ''Rate limit exceeded. Please wait before making more requests.'')"
      using len by (simp add: check_rate_limit_def RATE_LIMIT_MAX_def Let_def)
    then have "snd (run_checks rl2 [(token, u)]) =
        [Inl (HTTPException 429
          ''Rate limit exceeded. Please wait before making more requests.'')]"
      by (auto split: prod.splits)
    moreover have "run_checks rl (map (Pair token) (now # ts @ [u])) =
        (case run_checks ?rl1 (map (Pair token) ts @ [(token, u)]) of
           (rl3, rs3) \<Rightarrow> (rl3, Inr () # rs3))"
      using step by simp
    moreover have "Inr () # replicate 19 (Inr ()) = (replicate 20 (Inr ()) :: (error + unit) list)"
      by (simp add: numeral_eq_Suc)
    ultimately show ?thesis
      using run2 rs2 by (auto simp: run_checks_append split: prod.splits)
  qed
  show ?thesis
    using step first20 last by blast
qed

theorem quota_restored_after_inactivity_witness:
  "check_rate_limit [''k'' \<mapsto> replicate 20 40] ''k'' 100 = ([''k'' \<mapsto> [100]], Inr ())
   \<and> snd (run_checks [''k'' \<mapsto> replicate 20 40] (map (Pair ''k'') (100 # replicate 19 101))) =
       replicate 20 (Inr ())
   \<and> snd (run_checks [''k'' \<mapsto> replicate 20 40]
            (map (Pair ''k'') (100 # replicate 19 101 @ [102]))) =
       replicate 20 (Inr ()) @
       [Inl (HTTPException 429 ''Rate limit exceeded. Please wait before making more requests.'')]"
proof -
  have old: "\<forall>t\<in>set (hits_of [''k'' \<mapsto> replicate 20 40] ''k''). (100::real) - t \<ge> 60"
    by (simp add: hits_of_def)
  have few: "length (replicate 19 (101::real)) < 20"
    by simp
  have near: "length (replicate 19 (101::real)) = 19
      \<and> (\<forall>s\<in>set (replicate 19 (101::real) @ [102]). \<forall>t\<in>set (100 # replicate 19 101). s - t < 60)"
    by auto
  show ?thesis
    using quota_restored_after_inactivity [OF old few, of 102] near
    by (simp del: run_checks.simps)
qed

section \<open>The sliding window over a run\<close>

lemma run_gate_append:
  "run_gate cfg rl (xs @ ys) =
     (case run_gate cfg rl xs of
        (rl1, rs1) \<Rightarrow> (case run_gate cfg rl1 ys of (rl2, rs2) \<Rightarrow> (rl2, rs1 @ rs2)))"
  by (induction xs arbitrary: rl) (auto split: prod.splits)

lemma run_gate_length: "run_gate cfg rl reqs = (rl', rs) \<Longrightarrow> length rs = length reqs"
  by (induction reqs arbitrary: rl rl' rs) (auto split: prod.splits)

lemma authorize_cases [consumes 1, case_names unchanged admit limit]:
  assumes "authorize cfg rl authorization now = (rl', r)"
  obtains
    (unchanged) e where "rl' = rl" and "r = Inl e"
  | (admit) tok where "length (filter (\<lambda>t. now - t < 60) (hits_of rl tok)) < 20"
      and "rl' = rl(tok \<mapsto> filter (\<lambda>t. now - t < 60) (hits_of rl tok) @ [now])"
      and "r = Inr tok"
  | (limit) tok e where "20 \<le> length (filter (\<lambda>t. now - t < 60) (hits_of rl tok))"
      and "rl' = rl(tok \<mapsto> filter (\<lambda>t. now - t < 60) (hits_of rl tok))"
      and "r = Inl e"
proof -
  let ?kept = "\<lambda>tok. filter (\<lambda>t. now - t < 60) (hits_of rl tok)"
  from authorize_outcomes [OF assms]
  consider (same) "rl' = rl" and "\<exists>e. r = Inl e"
    | (checked) tok where "rl' = fst (check_rate_limit rl tok now)"
        and "r = (case snd (check_rate_limit rl tok now) of Inl e \<Rightarrow> Inl e | Inr _ \<Rightarrow> Inr tok)"
    by blast
  then show thesis
  proof cases
    case same
    then show thesis using unchanged by blast
  next
    case (checked tok)
    show thesis
    proof (cases "length (?kept tok) < 20")
      case True
      then have "check_rate_limit rl tok now = (rl(tok \<mapsto> ?kept tok @ [now]), Inr ())"
        by (simp add: check_rate_limit_def RATE_LIMIT_WINDOW_def RATE_LIMIT_MAX_def Let_def)
      with checked True show thesis
        using admit [of tok] by simp
    next
      case False
      then have "\<exists>e. check_rate_limit rl tok now = (rl(tok \<mapsto> ?kept tok), Inl e)"
        by (simp add: check_rate_limit_def RATE_LIMIT_WINDOW_def RATE_LIMIT_MAX_def Let_def)
      with checked False show thesis
        using limit [of tok] by auto
    qed
  qed
qed

lemma run_gate_snoc:
  assumes "run_gate cfg rl reqs = (rl1, rs)" and "authorize cfg rl1 authorization now = (rl2, r)"
  shows "run_gate cfg rl (reqs @ [(authorization, now)]) = (rl2, rs @ [r])"
  using assms by (simp add: run_gate_append)

lemma admitted_snoc:
  assumes "length reqs = length rs"
  shows "admitted tok (reqs @ [req]) (rs @ [r]) =
           admitted tok reqs rs @ (if r = Inr tok then [snd req] else [])"
  using assms by (simp add: admitted_def)

lemma filter_window_later:
  fixes now now' :: real
  assumes "now \<le> now'"
  shows "filter (\<lambda>t. now - t < 60 \<and> now' - t < 60) xs = filter (\<lambda>t. now' - t < 60) xs"
proof -
  have "\<And>t. (now - t < 60 \<and> now' - t < 60) = (now' - t < 60)"
    using assms by auto
  then show ?thesis by simp
qed

lemma tracks_step:
  assumes tr: "tracks rl1 reqs rs" and len: "length reqs = length rs"
      and late: "\<forall>t\<in>set (map snd reqs). t \<le> now0"
      and step: "authorize cfg rl1 authorization now0 = (rl2, r)"
  shows "tracks rl2 (reqs @ [(authorization, now0)]) (rs @ [r])"
  unfolding tracks_def
proof (intro allI impI)
  fix tok now
  assume "\<forall>t\<in>set (map snd (reqs @ [(authorization, now0)])). t \<le> now"
  then have now0: "now0 \<le> now" and all: "\<forall>t\<in>set (map snd reqs). t \<le> now"
    by auto
  have old: "filter (\<lambda>t. now - t < 60) (hits_of rl1 tok) =
             filter (\<lambda>t. now - t < 60) (admitted tok reqs rs)"
    using tr all by (simp add: tracks_def)
  have at0: "filter (\<lambda>t. now0 - t < 60) (hits_of rl1 tok) =
             filter (\<lambda>t. now0 - t < 60) (admitted tok reqs rs)"
    using tr late by (simp add: tracks_def)
  from step
  show "filter (\<lambda>t. now - t < 60) (hits_of rl2 tok) =
        filter (\<lambda>t. now - t < 60) (admitted tok (reqs @ [(authorization, now0)]) (rs @ [r]))"
  proof (cases rule: authorize_cases)
    case (unchanged e)
    then show ?thesis
      using old by (simp add: admitted_snoc [OF len])
  next
    case (admit tk)
    show ?thesis
    proof (cases "tok = tk")
      case True
      then show ?thesis
        using admit at0 old now0
        by (simp add: admitted_snoc [OF len] hits_of_def filter_window_later)
    next
      case False
      then show ?thesis
        using admit old by (auto simp: admitted_snoc [OF len] hits_of_def)
    qed
  next
    case (limit tk e)
    show ?thesis
    proof (cases "tok = tk")
      case True
      then show ?thesis
        using limit at0 old now0
        by (simp add: admitted_snoc [OF len] hits_of_def filter_window_later)
    next
      case False
      then show ?thesis
        using limit old by (auto simp: admitted_snoc [OF len] hits_of_def)
    qed
  qed
qed

lemma length_filter_mono:
  "(\<And>x. x \<in> set xs \<Longrightarrow> P x \<Longrightarrow> Q x) \<Longrightarrow> length (filter P xs) \<le> length (filter Q xs)"
  by (induction xs) auto

lemma admitted_subset: "set (admitted tok reqs rs) \<subseteq> set (map snd reqs)"
  by (auto simp: admitted_def dest: set_zip_leftD)

lemma tracks_run:
  assumes "sorted (map snd reqs)" and "run_gate cfg Map.empty reqs = (rl, rs)"
  shows "tracks rl reqs rs"
  using assms
proof (induction reqs arbitrary: rl rs rule: rev_induct)
  case Nil
  then show ?case by (auto simp: tracks_def hits_of_def admitted_def)
next
  case (snoc x reqs)
  obtain authorization now0 where x: "x = (authorization, now0)"
    by (cases x)
  obtain rl1 rs1 where run1: "run_gate cfg Map.empty reqs = (rl1, rs1)"
    by (cases "run_gate cfg Map.empty reqs")
  obtain rl2 r where step: "authorize cfg rl1 authorization now0 = (rl2, r)"
    by (cases "authorize cfg rl1 authorization now0")
  have chron: "sorted (map snd reqs)" and late: "\<forall>t\<in>set (map snd reqs). t \<le> now0"
    using snoc.prems(1) x by (auto simp: sorted_append)
  have len: "length reqs = length rs1"
    using run_gate_length [OF run1] by simp
  have "tracks rl2 (reqs @ [(authorization, now0)]) (rs1 @ [r])"
    using snoc.IH [OF chron run1] len late step by (rule tracks_step)
  moreover have "rl = rl2" and "rs = rs1 @ [r]"
    using snoc.prems(2) run_gate_snoc [OF run1 step] x by simp_all
  ultimately show ?case using x by simp
qed

lemma window_cap:
  assumes "sorted (map snd reqs)" and "run_gate cfg Map.empty reqs = (rl, rs)"
  shows "length (filter (\<lambda>t. T - 60 < t \<and> t \<le> T) (admitted tok reqs rs)) \<le> 20"
  using assms
proof (induction reqs arbitrary: rl rs rule: rev_induct)
  case Nil
  then show ?case by (simp add: admitted_def)
next
  case (snoc x reqs)
  obtain authorization now0 where x: "x = (authorization, now0)"
    by (cases x)
  obtain rl1 rs1 where run1: "run_gate cfg Map.empty reqs = (rl1, rs1)"
    by (cases "run_gate cfg Map.empty reqs")
  obtain rl2 r where step: "authorize cfg rl1 authorization now0 = (rl2, r)"
    by (cases "authorize cfg rl1 authorization now0")
  have chron: "sorted (map snd reqs)" and late: "\<forall>t\<in>set (map snd reqs). t \<le> now0"
    using snoc.prems(1) x by (auto simp: sorted_append)
  have len: "length reqs = length rs1"
    using run_gate_length [OF run1] by simp
  have rs: "rs = rs1 @ [r]"
    using snoc.prems(2) run_gate_snoc [OF run1 step] x by simp
  let ?A = "admitted tok reqs rs1"
  have IH: "length (filter (\<lambda>t. T - 60 < t \<and> t \<le> T) ?A) \<le> 20"
    using snoc.IH [OF chron run1] .
  have adm: "admitted tok (reqs @ [x]) rs = ?A @ (if r = Inr tok then [now0] else [])"
    using admitted_snoc [OF len, of tok x r] rs x by simp
  show ?case
  proof (cases "r = Inr tok \<and> T - 60 < now0 \<and> now0 \<le> T")
    case False
    then show ?thesis using IH adm by auto
  next
    case True
    from step have "length (filter (\<lambda>t. now0 - t < 60) (hits_of rl1 tok)) < 20"
      using True by (cases rule: authorize_cases) auto
    moreover have "filter (\<lambda>t. now0 - t < 60) (hits_of rl1 tok) = filter (\<lambda>t. now0 - t < 60) ?A"
      using tracks_run [OF chron run1] late by (simp add: tracks_def)
    ultimately have few: "length (filter (\<lambda>t. now0 - t < 60) ?A) < 20"
      by simp
    have "length (filter (\<lambda>t. T - 60 < t \<and> t \<le> T) ?A) \<le> length (filter (\<lambda>t. now0 - t < 60) ?A)"
      using True by (intro length_filter_mono) auto
    with few have "length (filter (\<lambda>t. T - 60 < t \<and> t \<le> T) ?A) < 20"
      by linarith
    then show ?thesis using True adm by simp
  qed
qed

lemma next_request_outcome:
  assumes chron: "sorted (map snd (reqs @ [(Some a, now)]))"
      and hdr: "py_split a = [scheme, tok]" "py_lower scheme = ''bearer''"
      and reg: "tok \<in> VALID_ACCESS_TOKENS cfg"
  shows "last (snd (run_gate cfg Map.empty (reqs @ [(Some a, now)]))) =
           (if length (filter (\<lambda>t. now - 60 < t \<and> t \<le> now)
                        (admitted tok reqs (snd (run_gate cfg Map.empty reqs)))) < 20
            then Inr tok
            else Inl (HTTPException 429
                   ''Rate limit exceeded. Please wait before making more requests.''))"
proof -
  obtain rl1 rs1 where run1: "run_gate cfg Map.empty reqs = (rl1, rs1)"
    by (cases "run_gate cfg Map.empty reqs")
  have sorted1: "sorted (map snd reqs)" and late: "\<forall>t\<in>set (map snd reqs). t \<le> now"
    using chron by (auto simp: sorted_append)
  let ?A = "admitted tok reqs rs1"
  have seen: "filter (\<lambda>t. now - t < 60) (hits_of rl1 tok) = filter (\<lambda>t. now - t < 60) ?A"
    using tracks_run [OF sorted1 run1] late by (simp add: tracks_def)
  have "\<And>t. t \<in> set ?A \<Longrightarrow> (now - t < 60) = (now - 60 < t \<and> t \<le> now)"
    using admitted_subset [of tok reqs rs1] late by auto
  then have window: "filter (\<lambda>t. now - t < 60) ?A = filter (\<lambda>t. now - 60 < t \<and> t \<le> now) ?A"
    by (intro filter_cong) auto
  have "snd (authorize cfg rl1 (Some a) now) =
          (if length (filter (\<lambda>t. now - 60 < t \<and> t \<le> now) ?A) < 20 then Inr tok
           else Inl (HTTPException 429
                  ''Rate limit exceeded. Please wait before making more requests.''))"
    using reg seen window
    by (simp add: authorize_parsed [OF hdr] check_rate_limit_def RATE_LIMIT_WINDOW_def
        RATE_LIMIT_MAX_def Let_def)
  then show ?thesis
    using run1 by (auto simp: run_gate_append split: prod.splits)
qed

text \<open>
  Claim C3, as stated, fails in two ways; both runs start from the empty dictionary with
  the master key of the default configuration. In the first the clock never goes back: 20
  requests at time 0 are admitted, 20 at time 30 are refused, and the request at time 60
  is admitted, although 20 requests that passed the membership test lie before it in the
  window from 0 (excluded) to 60, so it is the 21st there. In the second the clock steps
  back: 20 requests at time 0, one at time 60, which prunes the 20, and 19 at time 59 are
  all admitted, so 39 admitted checks have their times between 0 and 59.
\<close>

theorem sliding_window_claim_fails:
  "snd (run_gate default_config Map.empty
     (replicate 20 (Some ''Bearer wf_live_master_key_change_me'', 0) @
      replicate 20 (Some ''Bearer wf_live_master_key_change_me'', 30) @
      [(Some ''Bearer wf_live_master_key_change_me'', 60)])) =
   replicate 20 (Inr ''wf_live_master_key_change_me'') @
   replicate 20
     (Inl (HTTPException 429 ''Rate limit exceeded. Please wait before making more requests.'')) @
   [Inr ''wf_live_master_key_change_me'']
   \<and> admitted ''wf_live_master_key_change_me''
     (replicate 20 (Some ''Bearer wf_live_master_key_change_me'', 0) @
      [(Some ''Bearer wf_live_master_key_change_me'', 60)] @
      replicate 19 (Some ''Bearer wf_live_master_key_change_me'', 59))
     (snd (run_gate default_config Map.empty
        (replicate 20 (Some ''Bearer wf_live_master_key_change_me'', 0) @
         [(Some ''Bearer wf_live_master_key_change_me'', 60)] @
         replicate 19 (Some ''Bearer wf_live_master_key_change_me'', 59)))) =
   replicate 20 0 @ [60] @ replicate 19 59"
  by code_simp

text \<open>
  Claim C3, amended. Take any sequence of gate checks from the empty dictionary in which
  the clock readings do not decrease. For every token and every time \<open>T\<close>, at most 20 of the
  admitted checks of the token have their times in the interval from \<open>T - 60\<close> (excluded) to
  \<open>T\<close> (included). And a further check with a registered token at time \<open>now\<close> is admitted if
  fewer than 20 admitted checks of that token lie in the window ending at \<open>now\<close>, and fails
  with status 429 otherwise: counting the admitted checks in the window, refused ones left
  out, the Nth succeeds for N up to 20 and fails beyond. Whenever the gate admits a request
  after such a run, the token's stored list holds fewer than 20 entries within the window
  at that moment.
\<close>

theorem sliding_window_cap:
  "(sorted (map snd reqs) \<longrightarrow>
      length (filter (\<lambda>t. T - 60 < t \<and> t \<le> T)
                (admitted tok' reqs (snd (run_gate cfg Map.empty reqs)))) \<le> 20)
   \<and> (sorted (map snd (reqs @ [(Some a, now)])) \<and> py_split a = [scheme, tok]
        \<and> py_lower scheme = ''bearer'' \<and> tok \<in> VALID_ACCESS_TOKENS cfg \<longrightarrow>
      last (snd (run_gate cfg Map.empty (reqs @ [(Some a, now)]))) =
        (if length (filter (\<lambda>t. now - 60 < t \<and> t \<le> now)
                      (admitted tok reqs (snd (run_gate cfg Map.empty reqs)))) < 20
         then Inr tok
         else Inl (HTTPException 429
                ''Rate limit exceeded. Please wait before making more requests.'')))
   \<and> (snd (authorize cfg (fst (run_gate cfg Map.empty reqs)) authorization now') = Inr tok'' \<longrightarrow>
      length (filter (\<lambda>t. now' - t < 60) (hits_of (fst (run_gate cfg Map.empty reqs)) tok'')) < 20)"
proof (intro conjI impI)
  assume "snd (authorize cfg (fst (run_gate cfg Map.empty reqs)) authorization now') = Inr tok''"
  then have "authorize cfg (fst (run_gate cfg Map.empty reqs)) authorization now' =
      (fst (authorize cfg (fst (run_gate cfg Map.empty reqs)) authorization now'), Inr tok'')"
    by (simp add: prod_eq_iff)
  then show "length (filter (\<lambda>t. now' - t < 60)
      (hits_of (fst (run_gate cfg Map.empty reqs)) tok'')) < 20"
    by (cases rule: authorize_cases) auto
next
  assume "sorted (map snd reqs)"
  then show "length (filter (\<lambda>t. T - 60 < t \<and> t \<le> T)
                (admitted tok' reqs (snd (run_gate cfg Map.empty reqs)))) \<le> 20"
    using window_cap [of reqs cfg "fst (run_gate cfg Map.empty reqs)"
        "snd (run_gate cfg Map.empty reqs)" T tok']
    by simp
next
  assume "sorted (map snd (reqs @ [(Some a, now)])) \<and> py_split a = [scheme, tok]
        \<and> py_lower scheme = ''bearer'' \<and> tok \<in> VALID_ACCESS_TOKENS cfg"
  then have chron: "sorted (map snd (reqs @ [(Some a, now)]))"
    and parts: "py_split a = [scheme, tok]"
    and bearer: "py_lower scheme = ''bearer''"
    and reg: "tok \<in> VALID_ACCESS_TOKENS cfg"
    by blast+
  show "last (snd (run_gate cfg Map.empty (reqs @ [(Some a, now)]))) =
        (if length (filter (\<lambda>t. now - 60 < t \<and> t \<le> now)
                      (admitted tok reqs (snd (run_gate cfg Map.empty reqs)))) < 20
         then Inr tok
         else Inl (HTTPException 429
                ''Rate limit exceeded. Please wait before making more requests.''))"
    by (rule next_request_outcome [OF chron parts bearer reg])
qed

theorem sliding_window_cap_witness:
  "length (filter (\<lambda>t. 2 - 60 < t \<and> t \<le> 2)
     (admitted ''wf_live_master_key_change_me''
        (replicate 20 (Some ''Bearer wf_live_master_key_change_me'', 1))
        (snd (run_gate default_config Map.empty
           (replicate 20 (Some ''Bearer wf_live_master_key_change_me'', 1)))))) = 20
   \<and> last (snd (run_gate default_config Map.empty
        (replicate 20 (Some ''Bearer wf_live_master_key_change_me'', 1) @
         [(Some ''Bearer wf_live_master_key_change_me'', 2)]))) =
      Inl (HTTPException 429 ''Rate limit exceeded. Please wait before making more requests.'')
   \<and> last (snd (run_gate default_config Map.empty
        (replicate 20 (Some ''Bearer wf_live_master_key_change_me'', 1) @
         [(Some ''Bearer wf_live_master_key_change_me'', 61)]))) =
      Inr ''wf_live_master_key_change_me''
   \<and> length (filter (\<lambda>t. 61 - t < 60)
        (hits_of (fst (run_gate default_config Map.empty
           (replicate 20 (Some ''Bearer wf_live_master_key_change_me'', 1))))
         ''wf_live_master_key_change_me'')) < 20"
proof -
  let ?H = "''Bearer wf_live_master_key_change_me''"
  let ?k = "''wf_live_master_key_change_me''"
  let ?reqs = "replicate 20 (Some ?H, 1::real)"
  have adm: "admitted ?k ?reqs (snd (run_gate default_config Map.empty ?reqs)) = replicate 20 1"
    by code_simp
  have s2: "sorted (map snd (?reqs @ [(Some ?H, 2)]))"
    by (simp add: sorted_append)
  have s61: "sorted (map snd (?reqs @ [(Some ?H, 61)]))"
    by (simp add: sorted_append)
  have 1: "length (filter (\<lambda>t. 2 - 60 < t \<and> t \<le> 2)
     (admitted ?k ?reqs (snd (run_gate default_config Map.empty ?reqs)))) = 20"
    by (simp add: adm)
  have 2: "last (snd (run_gate default_config Map.empty (?reqs @ [(Some ?H, 2)]))) =
      Inl (HTTPException 429 ''Rate limit exceeded. Please wait before making more requests.'')"
    using sliding_window_cap [of ?reqs 2 ?k default_config ?H 2 "''Bearer''" ?k]
      s2 key_split py_lower_Bearer key_valid
    by (simp only: adm) simp
  have 3: "last (snd (run_gate default_config Map.empty (?reqs @ [(Some ?H, 61)]))) =
      Inr ?k"
    using sliding_window_cap [of ?reqs 61 ?k default_config ?H 61 "''Bearer''" ?k]
      s61 key_split py_lower_Bearer key_valid
    by (simp only: adm) simp
  have gate: "snd (authorize default_config (fst (run_gate default_config Map.empty ?reqs))
      (Some ?H) 61) = Inr ?k"
    by code_simp
  have 4: "length (filter (\<lambda>t. 61 - t < 60)
      (hits_of (fst (run_gate default_config Map.empty ?reqs)) ?k)) < 20"
    using sliding_window_cap [of ?reqs 61 ?k default_config ?H 61 "''Bearer''" ?k
        "Some ?H" 61 ?k] gate
    by blast
  show ?thesis using 1 2 3 4 by blast
qed

section \<open>Completion client and prompt composition\<close>

lemma default_model: "MODEL default_config = ''gpt-4o-mini''"
  by (simp add: default_config_def)

lemma gate_first_request:
  "authorize default_config Map.empty (Some ''Bearer wf_live_master_key_change_me'') 100 =
     ([''wf_live_master_key_change_me'' \<mapsto> [100]], Inr ''wf_live_master_key_change_me'')"
  by (simp add: authorize_parsed [OF key_split py_lower_Bearer] key_valid check_rate_limit_def
      hits_of_def RATE_LIMIT_WINDOW_def RATE_LIMIT_MAX_def Let_def)

text \<open>
  Claim C8. Whatever the provider call does, the completion client answers as follows. A
  response with a first choice gives the content of that choice, or the empty string when
  the content is \<open>None\<close>; the three usage counters of the response, or zero for each when
  the response has no usage object; and the model name of the response, or the configured
  model when the response names none. A \<open>RateLimitError\<close> gives status 429, any other
  \<open>APIError\<close> status 502 with the provider's message, any other exception status 500 with
  its message; a response with no choice at all is such an exception, the \<open>IndexError\<close> of
  reading the first choice, and gives status 500. Every failure of the client has one of
  these three statuses.
\<close>

theorem call_openai_outcomes:
  "(create \<lparr>req_model = MODEL cfg, req_messages = [(''system'', system), (''user'', user)],
            req_max_tokens = MAX_TOKENS cfg, req_temperature = 7 / 10\<rparr> = Inr resp
      \<and> resp_choices resp = c # cs \<longrightarrow>
      call_openai cfg create system user =
        Inr \<lparr>content = (case c of None \<Rightarrow> [] | Some s \<Rightarrow> s),
             usage = (case resp_usage resp of
                        None \<Rightarrow> [(''prompt_tokens'', 0), (''completion_tokens'', 0), (''total_tokens'', 0)]
                      | Some u \<Rightarrow> [(''prompt_tokens'', prompt_tokens u),
                                  (''completion_tokens'', completion_tokens u),
                                  (''total_tokens'', total_tokens u)]),
             model = (case resp_model resp of
                        None \<Rightarrow> MODEL cfg
                      | Some m \<Rightarrow> if m = [] then MODEL cfg else m)\<rparr>)
   \<and> (create \<lparr>req_model = MODEL cfg, req_messages = [(''system'', system), (''user'', user)],
              req_max_tokens = MAX_TOKENS cfg, req_temperature = 7 / 10\<rparr> = Inl (RateLimitError m1) \<longrightarrow>
      call_openai cfg create system user =
        Inl (HTTPException 429 ''OpenAI rate limit reached. Please try again shortly.''))
   \<and> (create \<lparr>req_model = MODEL cfg, req_messages = [(''system'', system), (''user'', user)],
              req_max_tokens = MAX_TOKENS cfg, req_temperature = 7 / 10\<rparr> = Inl (APIError m2) \<longrightarrow>
      call_openai cfg create system user = Inl (HTTPException 502 (''OpenAI API error: '' @ m2)))
   \<and> (create \<lparr>req_model = MODEL cfg, req_messages = [(''system'', system), (''user'', user)],
              req_max_tokens = MAX_TOKENS cfg, req_temperature = 7 / 10\<rparr> = Inl (OtherException m3) \<longrightarrow>
      call_openai cfg create system user = Inl (HTTPException 500 (''Internal error: '' @ m3)))
   \<and> (create \<lparr>req_model = MODEL cfg, req_messages = [(''system'', system), (''user'', user)],
              req_max_tokens = MAX_TOKENS cfg, req_temperature = 7 / 10\<rparr> = Inr resp
      \<and> resp_choices resp = [] \<longrightarrow>
      call_openai cfg create system user =
        Inl (HTTPException 500 ''Internal error: list index out of range''))
   \<and> ((\<exists>r. call_openai cfg create system user = Inr r)
        \<or> (\<exists>d. call_openai cfg create system user = Inl (HTTPException 429 d))
        \<or> (\<exists>d. call_openai cfg create system user = Inl (HTTPException 502 d))
        \<or> (\<exists>d. call_openai cfg create system user = Inl (HTTPException 500 d)))"
  by (auto simp: call_openai_def py_or_def split: sum.splits upstream_exc.splits list.splits option.splits)

theorem call_openai_outcomes_witness:
  "call_openai default_config
     (\<lambda>req. Inr \<lparr>resp_choices = [None], resp_usage = None, resp_model = None\<rparr>)
     ''be brief'' ''hello'' =
     Inr \<lparr>content = [],
          usage = [(''prompt_tokens'', 0), (''completion_tokens'', 0), (''total_tokens'', 0)],
          model = ''gpt-4o-mini''\<rparr>
   \<and> call_openai default_config (\<lambda>req. Inl (RateLimitError ''slow down'')) ''be brief'' ''hello'' =
     Inl (HTTPException 429 ''OpenAI rate limit reached. Please try again shortly.'')
   \<and> call_openai default_config (\<lambda>req. Inl (APIError ''bad gateway'')) ''be brief'' ''hello'' =
     Inl (HTTPException 502 ''OpenAI API error: bad gateway'')
   \<and> call_openai default_config (\<lambda>req. Inl (OtherException ''timed out'')) ''be brief'' ''hello'' =
     Inl (HTTPException 500 ''Internal error: timed out'')
   \<and> call_openai default_config
     (\<lambda>req. Inr \<lparr>resp_choices = [], resp_usage = None, resp_model = Some ''gpt-4o''\<rparr>)
     ''be brief'' ''hello'' =
     Inl (HTTPException 500 ''Internal error: list index out of range'')"
  using call_openai_outcomes [of
      "\<lambda>req. Inr \<lparr>resp_choices = [None], resp_usage = None, resp_model = None\<rparr>"
      default_config "''be brief''" "''hello''"
      "\<lparr>resp_choices = [None], resp_usage = None, resp_model = None\<rparr>" None "[]"]
    call_openai_outcomes [of "\<lambda>req. Inl (RateLimitError ''slow down'')"
      default_config "''be brief''" "''hello''" _ _ _ "''slow down''"]
    call_openai_outcomes [of "\<lambda>req. Inl (APIError ''bad gateway'')"
      default_config "''be brief''" "''hello''" _ _ _ _ "''bad gateway''"]
    call_openai_outcomes [of "\<lambda>req. Inl (OtherException ''timed out'')"
      default_config "''be brief''" "''hello''" _ _ _ _ _ "''timed out''"]
    call_openai_outcomes [of
      "\<lambda>req. Inr \<lparr>resp_choices = [], resp_usage = None, resp_model = Some ''gpt-4o''\<rparr>"
      default_config "''be brief''" "''hello''"
      "\<lparr>resp_choices = [], resp_usage = None, resp_model = Some ''gpt-4o''\<rparr>"]
  by (simp add: default_model)

lemma rewrite_content_unknown_style:
  assumes "style body \<notin> {Some ''improved'', Some ''formal'', Some ''casual'', Some ''concise'',
             Some ''expanded''}"
  shows "rewrite_content cfg create rl now body authorization =
           (case authorize cfg rl authorization now of
              (rl', Inl e) \<Rightarrow> (rl', Inl e)
            | (rl', Inr _) \<Rightarrow>
                (rl', call_openai cfg create
                   (''You are an expert editor and writing coach. '' @
                    ''Improve the clarity, flow, and impact while keeping the original meaning.'' @
                    '' '' @
                    ''Return the rewritten text in Markdown format. '' @
                    ''After the rewrite, add a brief '---'' @ [CHR 0x5C] @
                    ''n**Changes made:**' section listing key improvements.'')
                   (''Please rewrite the following text:\<newline>\<newline>'' @ rw_text body)))
       \<and> rewrite_content cfg create rl now body authorization =
           rewrite_content cfg create rl now (body\<lparr>style := Some ''improved''\<rparr>) authorization"
proof -
  have key: "py_or (style body) ''improved'' \<notin> {''formal'', ''casual'', ''concise'', ''expanded''}"
    using assms by (auto simp: py_or_def split: option.splits if_splits)
  have "(case map_of style_instructions (py_or (style body) ''improved'') of
           None \<Rightarrow> ''Improve the clarity, flow, and impact while keeping the original meaning.''
         | Some i \<Rightarrow> i) =
        ''Improve the clarity, flow, and impact while keeping the original meaning.''"
    using key by (simp add: style_instructions_def)
  then show ?thesis
    by (simp add: rewrite_content_def style_instructions_def py_or_def Let_def
        split: prod.splits sum.splits)
qed

lemma authorize_error_is_http:
  "authorize cfg rl authorization now = (rl', Inl e) \<Longrightarrow> \<exists>c d. e = HTTPException c d"
  by (auto simp: authorize_def check_rate_limit_def Let_def
      split: option.splits if_splits prod.splits sum.splits)

lemma call_openai_error_is_http:
  "call_openai cfg create system user = Inl e \<Longrightarrow> \<exists>c d. e = HTTPException c d"
  by (auto simp: call_openai_def split: sum.splits upstream_exc.splits list.splits)

lemma rewrite_content_no_validation_error:
  "snd (rewrite_content cfg create rl now body authorization) \<noteq> Inl (RequestValidationError flds)"
proof
  assume bad: "snd (rewrite_content cfg create rl now body authorization) =
    Inl (RequestValidationError flds)"
  obtain rl' r where gate: "authorize cfg rl authorization now = (rl', r)"
    by (cases "authorize cfg rl authorization now")
  show False
  proof (cases r)
    case (Inl e)
    with gate bad authorize_error_is_http [of cfg rl authorization now rl' e]
    show False by (auto simp: rewrite_content_def)
  next
    case (Inr tok)
    with gate bad show False
      by (auto simp: rewrite_content_def style_instructions_def Let_def
          dest: call_openai_error_is_http)
  qed
qed

text \<open>
  Claim C6, as stated, fails. A style of 51 characters is none of the five known styles,
  and the endpoint refuses the request with a validation error on \<open>style\<close>; the gate does
  not run and the dictionary stays empty.
\<close>

theorem rewrite_long_style_rejected:
  "Some (replicate 51 (CHR ''x'')) \<notin>
     {Some ''improved'', Some ''formal'', Some ''casual'', Some ''concise'', Some ''expanded''}
   \<and> post_api_rewrite default_config (\<lambda>req. Inl (APIError ''down'')) Map.empty 100
       \<lparr>rw_text = ''hi there'', style = Some (replicate 51 (CHR ''x''))\<rparr>
       (Some ''Bearer wf_live_master_key_change_me'') =
     (Map.empty, Inl (RequestValidationError [''style'']))"
proof -
  have unknown: "Some (replicate 51 (CHR ''x'')) \<notin>
     {Some ''improved'', Some ''formal'', Some ''casual'', Some ''concise'', Some ''expanded''}"
    by code_simp
  have text_ok: "py_len ''hi there'' = 8"
    by (simp add: py_len_def)
  have too_long: "py_len (replicate 51 (CHR ''x'')) = 51"
    by (simp add: py_len_def)
  have "RewriteRequest_errors \<lparr>rw_text = ''hi there'', style = Some (replicate 51 (CHR ''x''))\<rparr> =
      [''style'']"
    by (simp add: RewriteRequest_errors_def text_ok too_long)
  then show ?thesis
    using unknown by (simp add: post_api_rewrite_def)
qed

text \<open>
  Claim C6, amended. For every rewrite request whose style is absent or at most 50
  characters long and is none of \<open>improved\<close>, \<open>formal\<close>, \<open>casual\<close>, \<open>concise\<close> and \<open>expanded\<close>,
  the endpoint never answers with a validation error on \<open>style\<close>; unless the text is out of
  its bounds, which is a validation error on \<open>text\<close> alone, the system instruction sent to
  the provider carries the instruction of \<open>improved\<close>; and the whole outcome is the one of
  the same request with the style \<open>improved\<close>.
\<close>

theorem rewrite_unknown_style_within_bound:
  assumes "style body \<notin> {Some ''improved'', Some ''formal'', Some ''casual'', Some ''concise'',
             Some ''expanded''}"
      and "case style body of None \<Rightarrow> True | Some s \<Rightarrow> py_len s \<le> 50"
  shows "(snd (post_api_rewrite cfg create rl now body authorization) =
            Inl (RequestValidationError flds) \<longrightarrow> ''style'' \<notin> set flds)
       \<and> post_api_rewrite cfg create rl now body authorization =
           (if 2 \<le> py_len (rw_text body) \<and> py_len (rw_text body) \<le> 8000
            then (case authorize cfg rl authorization now of
                    (rl', Inl e) \<Rightarrow> (rl', Inl e)
                  | (rl', Inr _) \<Rightarrow>
                      (rl', call_openai cfg create
                         (''You are an expert editor and writing coach. '' @
                          ''Improve the clarity, flow, and impact while keeping the original meaning.'' @
                          '' '' @
                          ''Return the rewritten text in Markdown format. '' @
                          ''After the rewrite, add a brief '---'' @ [CHR 0x5C] @
                          ''n**Changes made:**' section listing key improvements.'')
                         (''Please rewrite the following text:\<newline>\<newline>'' @ rw_text body)))
            else (rl, Inl (RequestValidationError [''text''])))
       \<and> post_api_rewrite cfg create rl now body authorization =
           post_api_rewrite cfg create rl now (body\<lparr>style := Some ''improved''\<rparr>) authorization"
proof (intro conjI impI)
  have style_ok: "''style'' \<notin> set (RewriteRequest_errors body)"
    using assms(2) by (auto simp: RewriteRequest_errors_def split: option.splits)
  have len: "py_len ''improved'' \<le> 50"
    by (simp add: py_len_def)
  have same_errors: "RewriteRequest_errors (body\<lparr>style := Some ''improved''\<rparr>) =
      RewriteRequest_errors body"
    using assms(2) len by (auto simp: RewriteRequest_errors_def split: option.splits)
  {
    assume "snd (post_api_rewrite cfg create rl now body authorization) =
      Inl (RequestValidationError flds)"
    then have "flds = RewriteRequest_errors body"
      using rewrite_content_no_validation_error [of cfg create rl now body authorization flds]
      by (auto simp: post_api_rewrite_def split: if_splits)
    then show "''style'' \<notin> set flds"
      using style_ok by simp
  }
  have errors: "RewriteRequest_errors body =
      (if 2 \<le> py_len (rw_text body) \<and> py_len (rw_text body) \<le> 8000 then [] else [''text''])"
    using assms(2) by (auto simp: RewriteRequest_errors_def split: option.splits)
  show "post_api_rewrite cfg create rl now body authorization =
           (if 2 \<le> py_len (rw_text body) \<and> py_len (rw_text body) \<le> 8000
            then (case authorize cfg rl authorization now of
                    (rl', Inl e) \<Rightarrow> (rl', Inl e)
                  | (rl', Inr _) \<Rightarrow>
                      (rl', call_openai cfg create
                         (''You are an expert editor and writing coach. '' @
                          ''Improve the clarity, flow, and impact while keeping the original meaning.'' @
                          '' '' @
                          ''Return the rewritten text in Markdown format. '' @
                          ''After the rewrite, add a brief '---'' @ [CHR 0x5C] @
                          ''n**Changes made:**' section listing key improvements.'')
                         (''Please rewrite the following text:\<newline>\<newline>'' @ rw_text body)))
            else (rl, Inl (RequestValidationError [''text''])))"
    using rewrite_content_unknown_style [OF assms(1), THEN conjunct1, of cfg create rl now authorization]
    by (simp add: post_api_rewrite_def errors)
  show "post_api_rewrite cfg create rl now body authorization =
          post_api_rewrite cfg create rl now (body\<lparr>style := Some ''improved''\<rparr>) authorization"
    using rewrite_content_unknown_style [OF assms(1), THEN conjunct2, of cfg create rl now authorization]
      same_errors
    by (simp add: post_api_rewrite_def)
qed

theorem rewrite_unknown_style_within_bound_witness:
  "post_api_rewrite default_config (\<lambda>req. Inr \<lparr>resp_choices = [Some (snd (req_messages req ! 0))],
        resp_usage = None, resp_model = None\<rparr>)
     Map.empty 100 \<lparr>rw_text = ''hi there'', style = Some ''pirate''\<rparr>
     (Some ''Bearer wf_live_master_key_change_me'') =
   ([''wf_live_master_key_change_me'' \<mapsto> [100]],
    Inr \<lparr>content =
           ''You are an expert editor and writing coach. '' @
           ''Improve the clarity, flow, and impact while keeping the original meaning.'' @
           '' '' @
           ''Return the rewritten text in Markdown format. '' @
           ''After the rewrite, add a brief '---'' @ [CHR 0x5C] @
           ''n**Changes made:**' section listing key improvements.'',
         usage = [(''prompt_tokens'', 0), (''completion_tokens'', 0), (''total_tokens'', 0)],
         model = ''gpt-4o-mini''\<rparr>)"
proof -
  let ?body = "\<lparr>rw_text = ''hi there'', style = Some ''pirate''\<rparr>"
  have unknown: "style ?body \<notin>
      {Some ''improved'', Some ''formal'', Some ''casual'', Some ''concise'', Some ''expanded''}"
    by simp
  have bound: "case style ?body of None \<Rightarrow> True | Some s \<Rightarrow> py_len s \<le> 50"
    by (simp add: py_len_def)
  have valid: "2 \<le> py_len (rw_text ?body) \<and> py_len (rw_text ?body) \<le> 8000"
    by (simp add: py_len_def)
  show ?thesis
    using rewrite_unknown_style_within_bound [OF unknown bound, of default_config
        "\<lambda>req. Inr \<lparr>resp_choices = [Some (snd (req_messages req ! 0))],
           resp_usage = None, resp_model = None\<rparr>"
        Map.empty 100 "Some ''Bearer wf_live_master_key_change_me''", THEN conjunct2, THEN conjunct1]
      valid
    by (simp add: gate_first_request call_openai_def py_or_def default_model)
qed

text \<open>
  Claim C7. For every translate request, when \<open>source_lang\<close> is \<open>auto\<close> the user message passed
  to the completion client is the text of the request as it is; for every other
  \<open>source_lang\<close> it is \<open>Translate from <source_lang> to <target_lang>:\<close>, an empty line and
  the text, where a language is rendered as an f-string renders it (the string itself, and
  \<open>None\<close> for an absent value).
\<close>

theorem translate_user_message:
  "(source_lang body = Some ''auto'' \<longrightarrow>
      translate_content cfg create rl now body authorization =
        (case authorize cfg rl authorization now of
           (rl', Inl e) \<Rightarrow> (rl', Inl e)
         | (rl', Inr _) \<Rightarrow>
             (rl', call_openai cfg create
                (''You are a professional translator fluent in all major languages. '' @
                 ''Provide accurate, natural-sounding translations that preserve the original tone and meaning. '' @
                 ''If the source language is Chinese, translate to English. '' @
                 ''If the source language is English, translate to Chinese. '' @
                 ''For other language pairs, follow the user's instructions. '' @
                 ''Format the output in Markdown. After the translation, add a brief note about any '' @
                 ''cultural or contextual adaptations you made.'')
                (tr_text body))))
   \<and> (source_lang body \<noteq> Some ''auto'' \<longrightarrow>
      translate_content cfg create rl now body authorization =
        (case authorize cfg rl authorization now of
           (rl', Inl e) \<Rightarrow> (rl', Inl e)
         | (rl', Inr _) \<Rightarrow>
             (rl', call_openai cfg create
                (''You are a professional translator fluent in all major languages. '' @
                 ''Provide accurate, natural-sounding translations that preserve the original tone and meaning. '' @
                 ''If the source language is Chinese, translate to English. '' @
                 ''If the source language is English, translate to Chinese. '' @
                 ''For other language pairs, follow the user's instructions. '' @
                 ''Format the output in Markdown. After the translation, add a brief note about any '' @
                 ''cultural or contextual adaptations you made.'')
                (''Translate from '' @ py_str (source_lang body) @ '' to '' @
                 py_str (target_lang body) @ '':'' @ ''\<newline>\<newline>'' @ tr_text body))))
   \<and> py_str (Some s) = s \<and> py_str None = ''None''"
  by (simp add: translate_content_def py_str_def Let_def split: prod.splits sum.splits)

theorem translate_user_message_witness:
  "snd (translate_content default_config
     (\<lambda>req. Inr \<lparr>resp_choices = [Some (snd (req_messages req ! 1))],
        resp_usage = None, resp_model = None\<rparr>)
     Map.empty 100 \<lparr>tr_text = ''bonjour'', source_lang = Some ''auto'', target_lang = Some ''en''\<rparr>
     (Some ''Bearer wf_live_master_key_change_me'')) =
    Inr \<lparr>content = ''bonjour'',
         usage = [(''prompt_tokens'', 0), (''completion_tokens'', 0), (''total_tokens'', 0)],
         model = ''gpt-4o-mini''\<rparr>
   \<and> snd (translate_content default_config
     (\<lambda>req. Inr \<lparr>resp_choices = [Some (snd (req_messages req ! 1))],
        resp_usage = None, resp_model = None\<rparr>)
     Map.empty 100 \<lparr>tr_text = ''bonjour'', source_lang = Some ''fr'', target_lang = Some ''en''\<rparr>
     (Some ''Bearer wf_live_master_key_change_me'')) =
    Inr \<lparr>content = ''Translate from fr to en:\<newline>\<newline>bonjour'',
         usage = [(''prompt_tokens'', 0), (''completion_tokens'', 0), (''total_tokens'', 0)],
         model = ''gpt-4o-mini''\<rparr>"
proof -
  show ?thesis
    using translate_user_message [of
        "\<lparr>tr_text = ''bonjour'', source_lang = Some ''auto'', target_lang = Some ''en''\<rparr>"
        default_config
        "\<lambda>req. Inr \<lparr>resp_choices = [Some (snd (req_messages req ! 1))],
           resp_usage = None, resp_model = None\<rparr>"
        Map.empty 100 "Some ''Bearer wf_live_master_key_change_me''" "''fr''"]
      translate_user_message [of
        "\<lparr>tr_text = ''bonjour'', source_lang = Some ''fr'', target_lang = Some ''en''\<rparr>"
        default_config
        "\<lambda>req. Inr \<lparr>resp_choices = [Some (snd (req_messages req ! 1))],
           resp_usage = None, resp_model = None\<rparr>"
        Map.empty 100 "Some ''Bearer wf_live_master_key_change_me''" "''fr''"]
    by (simp add: gate_first_request call_openai_def py_or_def py_str_def default_model)
qed



end
